theory Spec2Isabelle
  imports Main
begin

section \<open>Python values\<close>

text \<open>
  A Python \<open>str\<close> is a sequence of Unicode code points and \<open>len\<close> counts code points,
  so a string is a list of code points. ASCII text is written with \<open>u\<close>; a character
  outside ASCII is written by its code point.
\<close>

type_synonym ustr = "nat list"

definition u :: "string \<Rightarrow> ustr" where
  "u s = map of_char s"

text \<open>\<open>str(n)\<close> for an integer.\<close>

function digits :: "int \<Rightarrow> ustr" where
  "digits n = (if n < 10 then [nat (48 + n)] else digits (n div 10) @ [nat (48 + n mod 10)])"
  by pat_completeness auto
termination
  by (relation "measure nat") auto

declare digits.simps [simp del]

definition str_int :: "int \<Rightarrow> ustr" where
  "str_int n = (if n < 0 then u ''-'' @ digits (- n) else digits n)"

text \<open>\<open>s.startswith(p)\<close> and \<open>sub in s\<close> on strings.\<close>

definition startswith :: "ustr \<Rightarrow> ustr \<Rightarrow> bool" where
  "startswith s p = (take (length p) s = p)"

fun py_in :: "ustr \<Rightarrow> ustr \<Rightarrow> bool" where
  "py_in sub [] = (sub = [])"
| "py_in sub (c # cs) = (startswith (c # cs) sub \<or> py_in sub cs)"

text \<open>
  \<open>s.lower()\<close>. The letters A to Z are mapped to a to z. Python also lowers letters
  outside ASCII; no such letter is lowered to one of the ASCII letters the script tests
  for, so the model leaves every other code point as it is.
\<close>

definition ascii_lower :: "nat \<Rightarrow> nat" where
  "ascii_lower c = (if 65 \<le> c \<and> c \<le> 90 then c + 32 else c)"

definition lower :: "ustr \<Rightarrow> ustr" where
  "lower s = map ascii_lower s"

subsection \<open>Floats\<close>

text \<open>
  A Python \<open>float\<close> is an IEEE 754 binary64 number. \<open>Finite m e\<close> is the number
  \<open>m * 2 ^ e\<close>; zero with a negative sign, the infinities and NaN are values of their own.
\<close>

datatype pyfloat = Finite int int | NegZero | PosInf | NegInf | NaN

function bitlen :: "int \<Rightarrow> int" where
  "bitlen n = (if n \<le> 0 then 0 else 1 + bitlen (n div 2))"
  by pat_completeness auto
termination
  by (relation "measure nat") auto

declare bitlen.simps [simp del]

text \<open>\<open>a / b\<close> rounded to the nearest integer, a tie to the even one (\<open>0 \<le> a\<close>, \<open>0 < b\<close>).\<close>

definition round_half_even :: "int \<Rightarrow> int \<Rightarrow> int" where
  "round_half_even a b =
     (let q = a div b; r = a mod b
      in if 2 * r < b then q else if b < 2 * r then q + 1 else if even q then q else q + 1)"

text \<open>The integer part of the binary logarithm of \<open>a / b\<close> (\<open>0 < a\<close>, \<open>0 < b\<close>).\<close>

definition floor_log2 :: "int \<Rightarrow> int \<Rightarrow> int" where
  "floor_log2 a b =
     (let k = bitlen a - bitlen b
      in if (if 0 \<le> k then b * 2 ^ nat k \<le> a else b \<le> a * 2 ^ nat (- k)) then k else k - 1)"

text \<open>
  The binary64 number nearest to \<open>(a / b) * 2 ^ x\<close>, with the sign \<open>neg\<close>: 53 bits of
  mantissa, the least exponent \<open>- 1074\<close> (subnormal numbers), ties to even, infinity
  from \<open>2 ^ 1024\<close> on.
\<close>

definition to_double :: "bool \<Rightarrow> int \<Rightarrow> int \<Rightarrow> int \<Rightarrow> pyfloat" where
  "to_double neg a b x =
     (if a = 0 then (if neg then NegZero else Finite 0 0)
      else
        let e = max (floor_log2 a b + x - 52) (- 1074);
            m = (if e \<le> x then round_half_even (a * 2 ^ nat (x - e)) b
                 else round_half_even a (b * 2 ^ nat (e - x)))
        in if 971 < e \<or> (e = 971 \<and> 2 ^ 53 \<le> m) then (if neg then NegInf else PosInf)
           else if m = 0 then (if neg then NegZero else Finite 0 0)
           else Finite (if neg then - m else m) e)"

text \<open>The float a JSON decoder yields for the decimal literal \<open>d * 10 ^ x\<close>.\<close>

definition decimal :: "int \<Rightarrow> int \<Rightarrow> pyfloat" where
  "decimal d x =
     (if 0 \<le> x then to_double (d < 0) (\<bar>d\<bar> * 10 ^ nat x) 1 0
      else to_double (d < 0) \<bar>d\<bar> (10 ^ nat (- x)) 0)"

text \<open>\<open>float(n)\<close> for an integer: \<open>None\<close> stands for \<open>OverflowError\<close>.\<close>

definition float_of_int :: "int \<Rightarrow> pyfloat option" where
  "float_of_int n =
     (case to_double (n < 0) \<bar>n\<bar> 1 0 of
        PosInf \<Rightarrow> None | NegInf \<Rightarrow> None | NegZero \<Rightarrow> Some (Finite 0 0) | f \<Rightarrow> Some f)"

definition times_100 :: "pyfloat \<Rightarrow> pyfloat" where
  "times_100 f = (case f of Finite m e \<Rightarrow> to_double (m < 0) (\<bar>m\<bar> * 100) 1 e | _ \<Rightarrow> f)"

definition float_gt_0 :: "pyfloat \<Rightarrow> bool" where
  "float_gt_0 f = (case f of Finite m e \<Rightarrow> 0 < m | PosInf \<Rightarrow> True | _ \<Rightarrow> False)"

text \<open>
  The format specifications \<open>.pf\<close> and \<open>.p%\<close> on a float: the exact value rounded to
  \<open>p\<close> decimals, a tie to the even digit; \<open>%\<close> multiplies by 100 in binary64 first.
\<close>

definition fixed_digits :: "nat \<Rightarrow> int \<Rightarrow> ustr" where
  "fixed_digits p n =
     (if p = 0 then digits n
      else digits (n div 10 ^ p) @ u ''.'' @
           replicate (p - length (digits (n mod 10 ^ p))) 48 @ digits (n mod 10 ^ p))"

definition format_f :: "nat \<Rightarrow> pyfloat \<Rightarrow> ustr" where
  "format_f p f =
     (case f of
        Finite m e \<Rightarrow>
          (if m < 0 then u ''-'' else []) @
          fixed_digits p
            (if 0 \<le> e then \<bar>m\<bar> * 2 ^ nat e * 10 ^ p
             else round_half_even (\<bar>m\<bar> * 10 ^ p) (2 ^ nat (- e)))
      | NegZero \<Rightarrow> u ''-'' @ fixed_digits p 0
      | PosInf \<Rightarrow> u ''inf''
      | NegInf \<Rightarrow> u ''-inf''
      | NaN \<Rightarrow> u ''nan'')"

definition format_pct :: "nat \<Rightarrow> pyfloat \<Rightarrow> ustr" where
  "format_pct p f = format_f p (times_100 f) @ u ''%''"

subsection \<open>Decoded JSON and exceptions\<close>

text \<open>
  What \<open>response.json()\<close> returns. \<open>JDict\<close> holds the items of a \<open>dict\<close>, whose keys
  are distinct.
\<close>

datatype json =
    JNull
  | JBool bool
  | JInt int
  | JFloat pyfloat
  | JStr ustr
  | JList "json list"
  | JDict "(ustr \<times> json) list"

text \<open>
  Exceptions. \<open>except Exception\<close> catches every class below except \<open>KeyboardInterrupt\<close>
  and \<open>SystemExit\<close>, which derive from \<open>BaseException\<close> only.
\<close>

datatype pyexc =
    KeyError ustr
  | TypeError
  | AttributeError
  | ValueError
  | OverflowError
  | JSONDecodeError
  | UnicodeEncodeError
  | RequestException ustr
  | KeyboardInterrupt
  | SystemExit

fun is_Exception :: "pyexc \<Rightarrow> bool" where
  "is_Exception KeyboardInterrupt = False"
| "is_Exception SystemExit = False"
| "is_Exception _ = True"

text \<open>
  The text of \<open>str(e)\<close> for an exception and of \<open>str(v)\<close> for a decoded value that is
  not a string are fixed by the interpreter and the libraries; the script only pastes
  them into a message. They are parameters of the model.
\<close>

record pylib =
  str_exc :: "pyexc \<Rightarrow> ustr"
  str_json :: "json \<Rightarrow> ustr"

text \<open>\<open>v[k]\<close> with a string key.\<close>

definition subscript :: "json \<Rightarrow> ustr \<Rightarrow> pyexc + json" where
  "subscript v k =
     (case v of
        JDict kvs \<Rightarrow> (case map_of kvs k of None \<Rightarrow> Inl (KeyError k) | Some w \<Rightarrow> Inr w)
      | _ \<Rightarrow> Inl TypeError)"

text \<open>\<open>v.lower()\<close>: only a string has the method.\<close>

definition py_lower :: "json \<Rightarrow> pyexc + ustr" where
  "py_lower v = (case v of JStr s \<Rightarrow> Inr (lower s) | _ \<Rightarrow> Inl AttributeError)"

text \<open>
  The float a float format specification is applied to: a float itself, an integer or a
  boolean converted; a string refuses the format code, any other value refuses a format
  specification.
\<close>

definition to_float :: "json \<Rightarrow> pyexc + pyfloat" where
  "to_float v =
     (case v of
        JFloat f \<Rightarrow> Inr f
      | JInt n \<Rightarrow> (case float_of_int n of None \<Rightarrow> Inl OverflowError | Some f \<Rightarrow> Inr f)
      | JBool b \<Rightarrow> Inr (Finite (if b then 1 else 0) 0)
      | JStr s \<Rightarrow> Inl ValueError
      | _ \<Rightarrow> Inl TypeError)"

definition format_percent :: "nat \<Rightarrow> json \<Rightarrow> pyexc + ustr" where
  "format_percent p v = (case to_float v of Inl e \<Rightarrow> Inl e | Inr f \<Rightarrow> Inr (format_pct p f))"

definition format_fixed :: "nat \<Rightarrow> json \<Rightarrow> pyexc + ustr" where
  "format_fixed p v = (case to_float v of Inl e \<Rightarrow> Inl e | Inr f \<Rightarrow> Inr (format_f p f))"

text \<open>\<open>v > 0\<close>.\<close>

definition gt_0 :: "json \<Rightarrow> pyexc + bool" where
  "gt_0 v =
     (case v of
        JInt n \<Rightarrow> Inr (0 < n)
      | JBool b \<Rightarrow> Inr b
      | JFloat f \<Rightarrow> Inr (float_gt_0 f)
      | _ \<Rightarrow> Inl TypeError)"

text \<open>The values a \<open>for\<close> loop over \<open>v\<close> visits.\<close>

definition py_iter :: "json \<Rightarrow> pyexc + json list" where
  "py_iter v =
     (case v of
        JList xs \<Rightarrow> Inr xs
      | JDict kvs \<Rightarrow> Inr (map (\<lambda>kv. JStr (fst kv)) kvs)
      | JStr s \<Rightarrow> Inr (map (\<lambda>c. JStr [c]) s)
      | _ \<Rightarrow> Inl TypeError)"

text \<open>\<open>{v}\<close> in an f-string.\<close>

definition py_str :: "pylib \<Rightarrow> json \<Rightarrow> ustr" where
  "py_str L v = (case v of JStr s \<Rightarrow> s | _ \<Rightarrow> str_json L v)"

text \<open>
  Streamlit sends the text of an element to the browser encoded as UTF-8. A string
  decoded from JSON may hold a surrogate code point (\<open>D800\<close> to \<open>DFFF\<close>), which cannot be
  encoded: the element then raises \<open>UnicodeEncodeError\<close> and draws nothing.
  \<open>st.components.v1.html\<close> moreover raises \<open>TypeError\<close> on a value that is not a string.
  The model makes these checks on the texts taken from a response body; the other texts
  drawn are the literals of the script, formatted numbers, and texts of the environment
  and of the libraries, taken as they are.
\<close>

definition is_surrogate :: "nat \<Rightarrow> bool" where
  "is_surrogate c = (0xD800 \<le> c \<and> c \<le> 0xDFFF)"

definition encodable :: "ustr \<Rightarrow> bool" where
  "encodable s = list_all (\<lambda>c. \<not> is_surrogate c) s"

definition st_text :: "ustr \<Rightarrow> pyexc + ustr" where
  "st_text s = (if encodable s then Inr s else Inl UnicodeEncodeError)"

definition st_html :: "json \<Rightarrow> pyexc + ustr" where
  "st_html v = (case v of JStr s \<Rightarrow> st_text s | _ \<Rightarrow> Inl TypeError)"

section \<open>The page and the network\<close>

datatype place = Main_area | Sidebar | Column nat | In_expander

text \<open>The arguments of \<open>px.bar\<close>.\<close>

record bar_fig =
  bar_x :: "ustr list"
  bar_y :: "json list"
  bar_color :: "ustr list"
  bar_color_discrete_map :: "(ustr \<times> ustr) list"
  bar_labels :: "(ustr \<times> ustr) list"

text \<open>
  The bars of the figure: row \<open>i\<close> is the bar of category \<open>x[i]\<close> and height \<open>y[i]\<close>, in
  the colour that the discrete map gives to \<open>color[i]\<close>.
\<close>

definition bars :: "bar_fig \<Rightarrow> (ustr \<times> json \<times> ustr option) list" where
  "bars fig =
     map (\<lambda>(c, v, k). (c, v, map_of (bar_color_discrete_map fig) k))
       (zip (bar_x fig) (zip (bar_y fig) (bar_color fig)))"

text \<open>
  What a Streamlit call draws. \<open>Markdown t h\<close> is \<open>st.markdown(t, unsafe_allow_html=h)\<close>,
  \<open>Button l d p\<close> is \<open>st.button(l, disabled=d)\<close> with \<open>p\<close> for \<open>type="primary"\<close>,
  \<open>TextArea l v m p h\<close> is \<open>st.text_area(l, value=v, max_chars=m, placeholder=p, help=h)\<close>,
  \<open>Html v h s\<close> is \<open>st.components.v1.html(v, height=h, scrolling=s)\<close>.
\<close>

datatype element =
    Markdown ustr bool
  | Warning ustr
  | Success ustr
  | Error ustr
  | Subheader ustr
  | Selectbox ustr "ustr list"
  | TextArea ustr ustr nat ustr ustr
  | Button ustr bool bool
  | PlotlyChart bar_fig
  | Html ustr nat bool
  | Expander ustr

datatype http_method = GET | POST

record request =
  http_method :: http_method
  url :: ustr
  json_arg :: "json option"

text \<open>A response: its status code, and its body decoded (\<open>None\<close> when it is not JSON).\<close>

record response =
  status_code :: int
  json_body :: "json option"

datatype http_result = Raises pyexc | Responds response

definition response_json :: "response \<Rightarrow> pyexc + json" where
  "response_json r = (case json_body r of None \<Rightarrow> Inl JSONDecodeError | Some v \<Rightarrow> Inr v)"

text \<open>
  The state of one run of the script: what has been drawn so far, the network calls
  issued so far, and \<open>st.session_state\<close>.
\<close>

record ui =
  rendered :: "(place \<times> element) list"
  calls :: "request list"
  session_state :: "ustr \<rightharpoonup> ustr"

definition emit :: "place \<Rightarrow> element \<Rightarrow> ui \<Rightarrow> ui" where
  "emit p e s = s\<lparr>rendered := rendered s @ [(p, e)]\<rparr>"

definition issue :: "request \<Rightarrow> ui \<Rightarrow> ui" where
  "issue rq s = s\<lparr>calls := calls s @ [rq]\<rparr>"

text \<open>
  A section of the script either runs to its end (\<open>Inr\<close>) or stops the run (\<open>Inl\<close>):
  by an exception nothing catches, or by \<open>st.rerun()\<close>.
\<close>

datatype halt = Uncaught pyexc | Rerun

type_synonym outcome = "(halt \<times> ui) + ui"

text \<open>A run starts with nothing drawn and no call issued.\<close>

definition fresh :: "(ustr \<rightharpoonup> ustr) \<Rightarrow> ui" where
  "fresh session = \<lparr>rendered = [], calls = [], session_state = session\<rparr>"

definition then_run :: "outcome \<Rightarrow> (ui \<Rightarrow> outcome) \<Rightarrow> outcome" where
  "then_run r k = (case r of Inl h \<Rightarrow> Inl h | Inr s \<Rightarrow> k s)"

text \<open>
  The body of a \<open>try\<close> block ends normally or raises, in the state reached by then.
  \<open>try_eval s r k\<close> evaluates an expression with result \<open>r\<close> in state \<open>s\<close> and goes on
  with \<open>k\<close>; \<open>except_Exception\<close> is the clause \<open>except Exception\<close>.
\<close>

type_synonym try_body = "(pyexc \<times> ui) + ui"

definition try_eval :: "ui \<Rightarrow> pyexc + 'a \<Rightarrow> ('a \<Rightarrow> try_body) \<Rightarrow> try_body" where
  "try_eval s r k = (case r of Inl e \<Rightarrow> Inl (e, s) | Inr v \<Rightarrow> k v)"

definition except_Exception :: "try_body \<Rightarrow> (pyexc \<Rightarrow> ui \<Rightarrow> ui) \<Rightarrow> outcome" where
  "except_Exception body handler =
     (case body of
        Inr s \<Rightarrow> Inr s
      | Inl (e, s) \<Rightarrow> if is_Exception e then Inr (handler e s) else Inl (Uncaught e, s))"

section \<open>The script\<close>

text \<open>
  The sections below follow \<open>StreamlitInterface.py\<close> from top to bottom. The calls that
  only draw fixed text (page configuration, the information panel of the sidebar, title,
  caption, dividers, footer) and the transient spinners are left out: they read nothing
  and nothing below depends on them.
\<close>

subsection \<open>Choice of the API address (lines 18 to 25)\<close>

definition API_URL :: "ustr option \<Rightarrow> ustr" where
  "API_URL env = (case env of None \<Rightarrow> u ''http://127.0.0.1:8000'' | Some v \<Rightarrow> v)"

definition local_mode_warning :: ustr where
  "local_mode_warning =
     [0x26A0, 0xFE0F] @ u '' L'application est configur'' @ [0xE9] @ u ''e pour le mode local.''"

definition startup :: "ustr \<Rightarrow> ui \<Rightarrow> ui" where
  "startup api s =
     (let s1 = emit Sidebar
                 (Markdown ([0x1F517] @ u '' **API utilis'' @ [0xE9] @ u ''e :** `'' @ api @ u ''`'')
                    False) s
      in if py_in (u ''localhost'') api then emit Main_area (Warning local_mode_warning) s1
         else s1)"

subsection \<open>Example picker (lines 58 to 67)\<close>

definition examples :: "ustr list" where
  "examples =
     [u ''J'adore ce produit, il est incroyable !'',
      u ''Ce film est une perte de temps totale...'',
      u ''Service client tr'' @ [0xE8] @ u ''s professionnel '' @ [0x1F44D],
      u ''Je ne recommanderai jamais cet endroit '' @ [0x1F621]]"

text \<open>\<open>example\<close> is the option that \<open>st.selectbox\<close> returns.\<close>

definition example_picker :: "ustr \<Rightarrow> ui \<Rightarrow> ui" where
  "example_picker example s =
     (let s1 = emit Sidebar (Selectbox (u ''Choisir un exemple :'') ([] # examples)) s
      in if example \<noteq> [] then s1\<lparr>session_state := (session_state s1)(u ''tweet_text'' \<mapsto> example)\<rparr>
         else s1)"

subsection \<open>Health probe (lines 76 to 84)\<close>

definition health_request :: "ustr \<Rightarrow> request" where
  "health_request api = \<lparr>http_method = GET, url = api @ u ''/health'', json_arg = None\<rparr>"

definition api_connected :: ustr where
  "api_connected = [0x2705] @ u '' API connect'' @ [0xE9] @ u ''e avec succ'' @ [0xE8] @ u ''s''"

definition api_unreachable :: ustr where
  "api_unreachable = [0x26A0, 0xFE0F] @ u '' API injoignable''"

definition api_connection_error :: ustr where
  "api_connection_error =
     [0x274C] @ u '' Impossible de se connecter '' @ [0xE0] @ u '' l'' @ [0x2019] @
     u ''API. V'' @ [0xE9] @ u ''rifiez qu'' @ [0x2019] @ u ''elle est lanc'' @ [0xE9] @ u ''e.''"

definition health_try :: "(request \<Rightarrow> http_result) \<Rightarrow> ustr \<Rightarrow> ui \<Rightarrow> try_body" where
  "health_try net api s =
     (let s1 = issue (health_request api) s
      in case net (health_request api) of
           Raises e \<Rightarrow> Inl (e, s1)
         | Responds health \<Rightarrow>
             if status_code health = 200 then Inr (emit Main_area (Success api_connected) s1)
             else Inr (emit Main_area (Error api_unreachable) s1))"

definition health_probe :: "(request \<Rightarrow> http_result) \<Rightarrow> ustr \<Rightarrow> ui \<Rightarrow> outcome" where
  "health_probe net api s =
     except_Exception (health_try net api s)
       (\<lambda>e. emit Main_area (Error api_connection_error))"

subsection \<open>Input zone and character counter (lines 90 to 107)\<close>

definition char_counter :: "nat \<Rightarrow> element" where
  "char_counter char_count =
     (if char_count < 240 then
        Markdown (u ''<span style='color:green'>'' @ str_int (int char_count) @ u ''/280</span>'')
          True
      else if char_count \<le> 280 then
        Markdown (u ''<span style='color:orange'>'' @ str_int (int char_count) @ u ''/280</span>'')
          True
      else
        Markdown (u ''<span style='color:red'>'' @ str_int (int char_count) @ u ''/280</span>'')
          True)"

text \<open>\<open>tweet_text\<close> is the text that \<open>st.text_area\<close> returns.\<close>

definition input_zone :: "ustr \<Rightarrow> ui \<Rightarrow> ui" where
  "input_zone tweet_text s =
     (let s1 = emit Main_area
                 (TextArea ([0x1F4DD] @ u '' Saisissez votre tweet '' @ [0xE0] @ u '' analyser'')
                    (case session_state s (u ''tweet_text'') of None \<Rightarrow> [] | Some v \<Rightarrow> v)
                    280
                    (u ''Tapez votre tweet ici... (280 caract'' @ [0xE8] @ u ''res max)'')
                    (u ''Exemple : 'J'adore ce produit, il est fantastique !'' @ [0x27])) s;
          char_count = length tweet_text
      in emit Main_area (char_counter char_count) s1)"

definition text_valid :: "nat \<Rightarrow> bool" where
  "text_valid char_count = (0 < char_count \<and> char_count \<le> 280)"

subsection \<open>Action buttons (lines 112 to 135)\<close>

definition predict_label :: ustr where
  "predict_label = [0x1F3AF] @ u '' Pr'' @ [0xE9] @ u ''dire le sentiment''"

definition explain_label :: ustr where
  "explain_label = [0x1F50D] @ u '' LIME (30-60s)''"

definition clear_label :: ustr where
  "clear_label = [0x1F5D1, 0xFE0F] @ u '' Effacer''"

definition action_buttons :: "bool \<Rightarrow> ui \<Rightarrow> ui" where
  "action_buttons valid s =
     emit (Column 3) (Button clear_label False False)
       (emit (Column 2) (Button explain_label (\<not> valid) False)
          (emit (Column 1) (Button predict_label (\<not> valid) True) s))"

definition clear_action :: "ui \<Rightarrow> outcome" where
  "clear_action s = Inl (Rerun, s\<lparr>session_state := (session_state s)(u ''tweet_text'' \<mapsto> [])\<rparr>)"

subsection \<open>Prediction (lines 140 to 169)\<close>

definition predict_request :: "ustr \<Rightarrow> ustr \<Rightarrow> request" where
  "predict_request api tweet_text =
     \<lparr>http_method = POST, url = api @ u ''/predict'',
      json_arg = Some (JDict [(u ''text'', JStr tweet_text)])\<rparr>"

definition positive_badge :: "ustr \<Rightarrow> element" where
  "positive_badge pct = Success ([0x1F60A] @ u '' **POSiTIF** ('' @ pct @ u '')'')"

definition negative_badge :: "ustr \<Rightarrow> element" where
  "negative_badge pct = Error ([0x1F61E] @ u '' **N'' @ [0xC9] @ u ''GATIF** ('' @ pct @ u '')'')"

definition px_bar :: "json \<Rightarrow> json \<Rightarrow> bar_fig" where
  "px_bar prob_neg prob_pos =
     \<lparr>bar_x = [u ''N'' @ [0xE9] @ u ''gatif'', u ''Positif''],
      bar_y = [prob_neg, prob_pos],
      bar_color = [u ''N'' @ [0xE9] @ u ''gatif'', u ''Positif''],
      bar_color_discrete_map =
        [(u ''N'' @ [0xE9] @ u ''gatif'', u ''red''), (u ''Positif'', u ''green'')],
      bar_labels = [(u ''x'', u ''Classe''), (u ''y'', u ''Probabilit'' @ [0xE9])]\<rparr>"

definition predict_failed :: ustr where
  "predict_failed =
     u ''Erreur lors de la requ'' @ [0xEA] @ u ''te '' @ [0xE0] @ u '' l'' @ [0x2019] @ u ''API.''"

definition predict_try :: "(request \<Rightarrow> http_result) \<Rightarrow> ustr \<Rightarrow> ustr \<Rightarrow> ui \<Rightarrow> try_body" where
  "predict_try net api tweet_text s =
     (let s1 = issue (predict_request api tweet_text) s
      in case net (predict_request api tweet_text) of
           Raises e \<Rightarrow> Inl (e, s1)
         | Responds response \<Rightarrow>
             if status_code response = 200 then
               try_eval s1 (response_json response) (\<lambda>data.
               try_eval s1 (subscript data (u ''sentiment'')) (\<lambda>sentiment.
               try_eval s1 (subscript data (u ''confidence'')) (\<lambda>confidence.
               try_eval s1 (subscript data (u ''probability_positive'')) (\<lambda>prob_pos.
               try_eval s1 (subscript data (u ''probability_negative'')) (\<lambda>prob_neg.
               try_eval s1 (py_lower sentiment) (\<lambda>lowered.
               try_eval s1 (format_percent 1 confidence) (\<lambda>pct.
                 let s2 = (if startswith lowered (u ''pos'')
                           then emit Main_area (positive_badge pct) s1
                           else emit Main_area (negative_badge pct) s1)
                 in Inr (emit Main_area (PlotlyChart (px_bar prob_neg prob_pos)) s2))))))))
             else Inr (emit Main_area (Error predict_failed) s1))"

definition erreur :: "pylib \<Rightarrow> pyexc \<Rightarrow> ui \<Rightarrow> ui" where
  "erreur L e s = emit Main_area (Error (u ''Erreur : '' @ str_exc L e)) s"

definition predict_action ::
  "pylib \<Rightarrow> (request \<Rightarrow> http_result) \<Rightarrow> ustr \<Rightarrow> ustr \<Rightarrow> ui \<Rightarrow> outcome" where
  "predict_action L net api tweet_text s =
     except_Exception (predict_try net api tweet_text s) (erreur L)"

subsection \<open>LIME explanation (lines 175 to 196)\<close>

definition explain_request :: "ustr \<Rightarrow> ustr \<Rightarrow> request" where
  "explain_request api tweet_text =
     \<lparr>http_method = POST, url = api @ u ''/explain'',
      json_arg = Some (JDict [(u ''text'', JStr tweet_text)])\<rparr>"

definition weight_line :: "ustr \<Rightarrow> ustr \<Rightarrow> ustr \<Rightarrow> ustr" where
  "weight_line color word weight =
     u ''- <span style='color:'' @ color @ [0x27] @ u ''>'' @ word @ u ''</span> '' @
     [0x2192] @ u '' '' @ weight"

fun explain_items :: "pylib \<Rightarrow> json list \<Rightarrow> ui \<Rightarrow> try_body" where
  "explain_items L [] s = Inr s"
| "explain_items L (item # items) s =
     try_eval s (subscript item (u ''weight'')) (\<lambda>w.
     try_eval s (gt_0 w) (\<lambda>positive.
       let color = (if positive then u ''green'' else u ''red'')
       in try_eval s (subscript item (u ''word'')) (\<lambda>word.
          try_eval s (subscript item (u ''weight'')) (\<lambda>weight.
          try_eval s (format_fixed 3 weight) (\<lambda>formatted.
          try_eval s (st_text (weight_line color (py_str L word) formatted)) (\<lambda>line.
            explain_items L items (emit In_expander (Markdown line True) s)))))))"

definition explain_failed :: ustr where
  "explain_failed =
     [0x26A0, 0xFE0F] @ u '' Erreur lors de la g'' @ [0xE9] @ u ''n'' @ [0xE9] @
     u ''ration de l'' @ [0x2019] @ u ''explication LIME.''"

definition explain_try ::
  "pylib \<Rightarrow> (request \<Rightarrow> http_result) \<Rightarrow> ustr \<Rightarrow> ustr \<Rightarrow> ui \<Rightarrow> try_body" where
  "explain_try L net api tweet_text s =
     (let s1 = issue (explain_request api tweet_text) s
      in case net (explain_request api tweet_text) of
           Raises e \<Rightarrow> Inl (e, s1)
         | Responds resp \<Rightarrow>
             if status_code resp = 200 then
               try_eval s1 (response_json resp) (\<lambda>explanation_data.
                 let s2 = emit Main_area (Subheader ([0x1F4D8] @ u '' Explication LIME'')) s1
                 in try_eval s2 (subscript explanation_data (u ''html_explanation'')) (\<lambda>html.
                    try_eval s2 (st_html html) (\<lambda>srcdoc.
                      let s3 = emit Main_area (Html srcdoc 400 True) s2;
                          s4 = emit Main_area
                                 (Expander ([0x1F4CA] @ u '' D'' @ [0xE9] @
                                            u ''tails des poids des mots'')) s3
                      in try_eval s4 (subscript explanation_data (u ''explanation'')) (\<lambda>explanation.
                         try_eval s4 (py_iter explanation) (\<lambda>items.
                           explain_items L items s4)))))
             else Inr (emit Main_area (Error explain_failed) s1))"

definition explain_action ::
  "pylib \<Rightarrow> (request \<Rightarrow> http_result) \<Rightarrow> ustr \<Rightarrow> ustr \<Rightarrow> ui \<Rightarrow> outcome" where
  "explain_action L net api tweet_text s =
     except_Exception (explain_try L net api tweet_text s) (erreur L)"

subsection \<open>One run of the script\<close>

text \<open>
  What a run takes from outside: the environment variable, the session state left by
  the run before, what the widgets return, and how the network answers each request.
\<close>

record inputs =
  env_API_URL :: "ustr option"
  initial_session :: "ustr \<rightharpoonup> ustr"
  selectbox_value :: ustr
  text_area_value :: ustr
  predict_btn :: bool
  explain_btn :: bool
  clear_btn :: bool
  network :: "request \<Rightarrow> http_result"

definition script :: "pylib \<Rightarrow> inputs \<Rightarrow> outcome" where
  "script L inp =
     (let api = API_URL (env_API_URL inp);
          s1 = startup api (fresh (initial_session inp));
          s2 = example_picker (selectbox_value inp) s1
      in then_run (health_probe (network inp) api s2) (\<lambda>s3.
           let tweet_text = text_area_value inp;
               s4 = input_zone tweet_text s3;
               valid = text_valid (length tweet_text);
               s5 = action_buttons valid s4
           in if clear_btn inp then clear_action s5
              else
                then_run (if predict_btn inp \<and> valid
                          then predict_action L (network inp) api tweet_text s5 else Inr s5) (\<lambda>s6.
                  if explain_btn inp \<and> valid
                  then explain_action L (network inp) api tweet_text s6 else Inr s6)))"

text \<open>The state in which a run ends, however it ends.\<close>

definition final :: "outcome \<Rightarrow> ui" where
  "final r = (case r of Inl (h, s) \<Rightarrow> s | Inr s \<Rightarrow> s)"

text \<open>A call fails by an exception of class \<open>Exception\<close> or by a status other than 200.\<close>

definition failed :: "http_result \<Rightarrow> bool" where
  "failed a = (case a of Raises e \<Rightarrow> is_Exception e | Responds r \<Rightarrow> status_code r \<noteq> 200)"

subsection \<open>What a run leaves behind\<close>

text \<open>
  The buttons on the page, and predicates on the way a \<open>try\<close> block or a section ends,
  used to follow the calls issued and the buttons drawn through the script.
\<close>

fun is_button :: "element \<Rightarrow> bool" where
  "is_button (Button l d p) = True"
| "is_button _ = False"

definition buttons_of :: "ui \<Rightarrow> (place \<times> element) list" where
  "buttons_of s = filter (\<lambda>pe. is_button (snd pe)) (rendered s)"

text \<open>The markdown elements of the main area.\<close>

fun is_markdown :: "element \<Rightarrow> bool" where
  "is_markdown (Markdown t h) = True"
| "is_markdown _ = False"

definition main_markdowns :: "ui \<Rightarrow> element list" where
  "main_markdowns s =
     map snd (filter (\<lambda>pe. fst pe = Main_area \<and> is_markdown (snd pe)) (rendered s))"

definition ends :: "(pyexc option \<Rightarrow> ui \<Rightarrow> bool) \<Rightarrow> try_body \<Rightarrow> bool" where
  "ends Q b = (case b of Inl (e, s) \<Rightarrow> Q (Some e) s | Inr s \<Rightarrow> Q None s)"

text \<open>
  Where a \<open>try\<close> block ends, only its request has been issued, no button and no
  markdown of the main area has been drawn, and an exception is of class \<open>Exception\<close> or
  the one the network raised.
\<close>

definition try_frame ::
  "(request \<Rightarrow> http_result) \<Rightarrow> request \<Rightarrow> ui \<Rightarrow> pyexc option \<Rightarrow> ui \<Rightarrow> bool" where
  "try_frame net rq s eo s' =
     ((\<forall>e. eo = Some e \<longrightarrow> is_Exception e \<or> net rq = Raises e) \<and>
      calls s' = calls s @ [rq] \<and> buttons_of s' = buttons_of s \<and>
      main_markdowns s' = main_markdowns s)"

definition outcome_frame ::
  "(request \<Rightarrow> http_result) \<Rightarrow> request \<Rightarrow> ui \<Rightarrow> outcome \<Rightarrow> bool" where
  "outcome_frame net rq s r =
     (calls (final r) = calls s @ [rq] \<and> buttons_of (final r) = buttons_of s \<and>
      main_markdowns (final r) = main_markdowns s \<and>
      (\<forall>h s'. r = Inl (h, s') \<longrightarrow> (\<exists>e. h = Uncaught e \<and> net rq = Raises e \<and> \<not> is_Exception e)))"

subsection \<open>Sample inputs\<close>

text \<open>
  Values at which the theorems below are instantiated: a library whose texts are fixed,
  a network that gives every request the same answer or the same exception, and two
  response bodies of the documented shapes.
\<close>

definition sample_lib :: pylib where
  "sample_lib = \<lparr>str_exc = (\<lambda>e. u ''failure''), str_json = (\<lambda>v. u ''value'')\<rparr>"

definition answering :: "response \<Rightarrow> request \<Rightarrow> http_result" where
  "answering r rq = Responds r"

definition failing :: "pyexc \<Rightarrow> request \<Rightarrow> http_result" where
  "failing e rq = Raises e"



definition explanation_items :: "(ustr \<times> json) list" where
  "explanation_items =
     [(u ''html_explanation'', JStr (u ''<p>LIME</p>'')),
      (u ''explanation'', JList
         [JDict [(u ''word'', JStr (u ''love'')), (u ''weight'', JFloat (decimal 42 (-2)))],
          JDict [(u ''word'', JStr (u ''bad'')), (u ''weight'', JFloat (decimal (-31) (-2)))]])]"

definition explanation_response :: response where
  "explanation_response = \<lparr>status_code = 200, json_body = Some (JDict explanation_items)\<rparr>"

definition sample_inputs :: "ustr \<Rightarrow> inputs" where
  "sample_inputs tweet_text =
     \<lparr>env_API_URL = None, initial_session = Map.empty, selectbox_value = [],
      text_area_value = tweet_text, predict_btn = True, explain_btn = True, clear_btn = False,
      network = failing (RequestException (u ''refused''))\<rparr>"

section \<open>Properties\<close>

subsection \<open>Character counter\<close>

lemma span_colours_differ:
  "(u ''<span style='color:green'>'' @ a = u ''<span style='color:orange'>'' @ b) = False"
  "(u ''<span style='color:green'>'' @ a = u ''<span style='color:red'>'' @ b) = False"
  "(u ''<span style='color:orange'>'' @ a = u ''<span style='color:green'>'' @ b) = False"
  "(u ''<span style='color:orange'>'' @ a = u ''<span style='color:red'>'' @ b) = False"
  "(u ''<span style='color:red'>'' @ a = u ''<span style='color:green'>'' @ b) = False"
  "(u ''<span style='color:red'>'' @ a = u ''<span style='color:orange'>'' @ b) = False"
  by (simp_all add: u_def)

text \<open>
  C4. When the input box caps the text at 280 characters, so that the count is at most
  280, the red branch of the counter is never taken.
\<close>

theorem red_unreachable:
  assumes "char_count \<le> 280"
  shows "\<not> (\<exists>t. char_counter char_count = Markdown (u ''<span style='color:red'>'' @ t) True)"
  using assms by (simp add: char_counter_def span_colours_differ)

theorem red_unreachable_witness:
  "(280::nat) \<le> 280 \<and>
   \<not> (\<exists>t. char_counter 280 = Markdown (u ''<span style='color:red'>'' @ t) True)"
  using red_unreachable [of 280] by simp

subsection \<open>Start-up warning\<close>

text \<open>
  C1. With \<open>API_URL\<close> unset the address is \<open>http://127.0.0.1:8000\<close>. The script tests
  the address for the substring \<open>localhost\<close>, which the default does not contain: the
  run draws the sidebar line and no warning, although the default is a loopback address.
\<close>

theorem default_url_no_warning:
  "API_URL None = u ''http://127.0.0.1:8000'' \<and>
   rendered (startup (API_URL None) (fresh Map.empty)) =
     [(Sidebar, Markdown ([0x1F517] @ u '' **API utilis'' @ [0xE9] @ u ''e :** `'' @
                          u ''http://127.0.0.1:8000'' @ u ''`'') False)]"
  by (simp add: API_URL_def startup_def emit_def fresh_def Let_def startswith_def u_def)

subsection \<open>Health probe\<close>

text \<open>
  C7. On the health probe a response with a status other than 200 draws the
  "unreachable" message, an exception of the transport draws the "connection error"
  message, and the two messages differ.
\<close>

theorem health_badges:
  assumes "neta (health_request api) = Responds r" and "status_code r \<noteq> 200"
    and "netb (health_request api) = Raises e" and "is_Exception e"
  shows "health_probe neta api s =
           Inr (emit Main_area (Error api_unreachable) (issue (health_request api) s)) \<and>
         health_probe netb api s =
           Inr (emit Main_area (Error api_connection_error) (issue (health_request api) s)) \<and>
         api_unreachable \<noteq> api_connection_error"
  using assms
  by (simp add: health_probe_def health_try_def except_Exception_def Let_def
      api_unreachable_def api_connection_error_def)

theorem health_badges_witness:
  "health_probe (answering \<lparr>status_code = 503, json_body = None\<rparr>) (u ''http://api'')
       (fresh Map.empty) =
     Inr (emit Main_area (Error api_unreachable)
           (issue (health_request (u ''http://api'')) (fresh Map.empty))) \<and>
   health_probe (failing (RequestException (u ''refused''))) (u ''http://api'')
       (fresh Map.empty) =
     Inr (emit Main_area (Error api_connection_error)
           (issue (health_request (u ''http://api'')) (fresh Map.empty))) \<and>
   api_unreachable \<noteq> api_connection_error"
proof -
  have h1: "answering \<lparr>status_code = 503, json_body = None\<rparr> (health_request (u ''http://api'')) =
              Responds \<lparr>status_code = 503, json_body = None\<rparr>"
    by (simp add: answering_def)
  have h2: "status_code \<lparr>status_code = 503, json_body = None\<rparr> \<noteq> 200"
    by simp
  have h3: "failing (RequestException (u ''refused'')) (health_request (u ''http://api'')) =
              Raises (RequestException (u ''refused''))"
    by (simp add: failing_def)
  have h4: "is_Exception (RequestException (u ''refused''))"
    by simp
  show ?thesis
    by (rule health_badges
        [where neta = "answering \<lparr>status_code = 503, json_body = None\<rparr>"
           and netb = "failing (RequestException (u ''refused''))", OF h1 h2 h3 h4])
qed

subsection \<open>Prediction\<close>

lemma format_87_percent: "format_pct 1 (decimal 87 (-2)) = u ''87.0%''"
  by code_simp

lemma prediction_keys_differ:
  "u ''sentiment'' \<noteq> u ''confidence''" "u ''sentiment'' \<noteq> u ''probability_positive''"
  "u ''sentiment'' \<noteq> u ''probability_negative''" "u ''confidence'' \<noteq> u ''probability_positive''"
  "u ''confidence'' \<noteq> u ''probability_negative''"
  "u ''probability_positive'' \<noteq> u ''probability_negative''"
  by (simp_all add: u_def)

text \<open>
  C5. For the response with status 200 and the body
  \<open>{"sentiment":"positive","confidence":0.87,"probability_positive":0.87,
  "probability_negative":0.13}\<close> the page shows the success badge with \<open>87.0%\<close> and a
  chart of two bars: 0.13 for the negative class in red, 0.87 for the positive class in
  green.
\<close>

theorem predict_positive_example:
  assumes "net (predict_request api t) =
     Responds \<lparr>status_code = 200, json_body = Some (JDict
       [(u ''sentiment'', JStr (u ''positive'')),
        (u ''confidence'', JFloat (decimal 87 (-2))),
        (u ''probability_positive'', JFloat (decimal 87 (-2))),
        (u ''probability_negative'', JFloat (decimal 13 (-2)))])\<rparr>"
  shows "predict_action L net api t s =
           Inr (emit Main_area
                 (PlotlyChart (px_bar (JFloat (decimal 13 (-2))) (JFloat (decimal 87 (-2)))))
                 (emit Main_area (Success ([0x1F60A] @ u '' **POSiTIF** (87.0%)''))
                   (issue (predict_request api t) s))) \<and>
         bars (px_bar (JFloat (decimal 13 (-2))) (JFloat (decimal 87 (-2)))) =
           [(u ''N'' @ [0xE9] @ u ''gatif'', JFloat (decimal 13 (-2)), Some (u ''red'')),
            (u ''Positif'', JFloat (decimal 87 (-2)), Some (u ''green''))]"
proof -
  have low: "startswith (lower (u ''positive'')) (u ''pos'')"
    by (simp add: startswith_def lower_def ascii_lower_def u_def)
  have badge: "[0x1F60A] @ u '' **POSiTIF** ('' @ u ''87.0%'' @ u '')'' =
               [0x1F60A] @ u '' **POSiTIF** (87.0%)''"
    by (simp add: u_def)
  have act: "predict_action L net api t s =
     Inr (emit Main_area
           (PlotlyChart (px_bar (JFloat (decimal 13 (-2))) (JFloat (decimal 87 (-2)))))
           (emit Main_area (Success ([0x1F60A] @ u '' **POSiTIF** (87.0%)''))
             (issue (predict_request api t) s)))"
    using prediction_keys_differ prediction_keys_differ [symmetric] low
    by (simp add: predict_action_def predict_try_def except_Exception_def try_eval_def Let_def
        assms response_json_def subscript_def py_lower_def format_percent_def to_float_def
        format_87_percent [unfolded One_nat_def] positive_badge_def badge del: append.simps)
  have b: "bars (px_bar (JFloat (decimal 13 (-2))) (JFloat (decimal 87 (-2)))) =
     [(u ''N'' @ [0xE9] @ u ''gatif'', JFloat (decimal 13 (-2)), Some (u ''red'')),
      (u ''Positif'', JFloat (decimal 87 (-2)), Some (u ''green''))]"
    by (simp add: bars_def px_bar_def u_def)
  from act b show ?thesis by (rule conjI)
qed

theorem predict_positive_example_witness:
  "predict_action sample_lib
     (answering \<lparr>status_code = 200, json_body = Some (JDict
       [(u ''sentiment'', JStr (u ''positive'')),
        (u ''confidence'', JFloat (decimal 87 (-2))),
        (u ''probability_positive'', JFloat (decimal 87 (-2))),
        (u ''probability_negative'', JFloat (decimal 13 (-2)))])\<rparr>)
     (u ''http://api'') (u ''great'') (fresh Map.empty) =
   Inr (emit Main_area
         (PlotlyChart (px_bar (JFloat (decimal 13 (-2))) (JFloat (decimal 87 (-2)))))
         (emit Main_area (Success ([0x1F60A] @ u '' **POSiTIF** (87.0%)''))
           (issue (predict_request (u ''http://api'') (u ''great'')) (fresh Map.empty))))"
proof -
  have h: "answering \<lparr>status_code = 200, json_body = Some (JDict
       [(u ''sentiment'', JStr (u ''positive'')),
        (u ''confidence'', JFloat (decimal 87 (-2))),
        (u ''probability_positive'', JFloat (decimal 87 (-2))),
        (u ''probability_negative'', JFloat (decimal 13 (-2)))])\<rparr>
      (predict_request (u ''http://api'') (u ''great'')) =
     Responds \<lparr>status_code = 200, json_body = Some (JDict
       [(u ''sentiment'', JStr (u ''positive'')),
        (u ''confidence'', JFloat (decimal 87 (-2))),
        (u ''probability_positive'', JFloat (decimal 87 (-2))),
        (u ''probability_negative'', JFloat (decimal 13 (-2)))])\<rparr>"
    by (simp add: answering_def)
  show ?thesis
    using predict_positive_example
        [where net = "answering \<lparr>status_code = 200, json_body = Some (JDict
           [(u ''sentiment'', JStr (u ''positive'')),
            (u ''confidence'', JFloat (decimal 87 (-2))),
            (u ''probability_positive'', JFloat (decimal 87 (-2))),
            (u ''probability_negative'', JFloat (decimal 13 (-2)))])\<rparr>"
           and L = sample_lib and s = "fresh Map.empty", OF h]
    by (rule conjunct1)
qed








subsection \<open>Explanation\<close>

lemma format_weights:
  "format_f 3 (decimal 42 (-2)) = u ''0.420''"
  "format_f 3 (decimal (-31) (-2)) = u ''-0.310''"
  by code_simp+

lemma sign_of_weights:
  "float_gt_0 (decimal 42 (-2))" "\<not> float_gt_0 (decimal (-31) (-2))"
  by code_simp+

lemma explanation_keys_differ:
  "u ''word'' \<noteq> u ''weight''" "u ''weight'' \<noteq> u ''word''"
  "u ''html_explanation'' \<noteq> u ''explanation''" "u ''explanation'' \<noteq> u ''html_explanation''"
  by (simp_all add: u_def)

text \<open>
  C9. For a response with status 200 whose body holds a string that can be drawn as
  \<open>html_explanation\<close> and the \<open>explanation\<close>
  \<open>[{"word":"love","weight":0.42},{"word":"bad","weight":-0.31}]\<close>, the list of weights
  shows \<open>love\<close> in a green span and \<open>bad\<close> in a red span.
\<close>

theorem explanation_example:
  assumes "rq = \<lparr>http_method = POST, url = api @ u ''/explain'',
                 json_arg = Some (JDict [(u ''text'', JStr t)])\<rparr>"
    and "net rq = Responds resp" and "status_code resp = 200"
    and "json_body resp = Some (JDict kvs)"
    and "map_of kvs (u ''html_explanation'') = Some (JStr html)" and "encodable html"
    and "map_of kvs (u ''explanation'') = Some (JList
           [JDict [(u ''word'', JStr (u ''love'')), (u ''weight'', JFloat (decimal 42 (-2)))],
            JDict [(u ''word'', JStr (u ''bad'')), (u ''weight'', JFloat (decimal (-31) (-2)))]])"
  shows "explain_action L net api t s =
           Inr (emit In_expander
                 (Markdown (u ''- <span style='color:red'>bad</span> '' @ [0x2192] @
                            u '' -0.310'') True)
                 (emit In_expander
                   (Markdown (u ''- <span style='color:green'>love</span> '' @ [0x2192] @
                              u '' 0.420'') True)
                   (emit Main_area (Expander ([0x1F4CA] @ u '' D'' @ [0xE9] @
                                              u ''tails des poids des mots''))
                     (emit Main_area (Html html 400 True)
                       (emit Main_area (Subheader ([0x1F4D8] @ u '' Explication LIME''))
                         (issue rq s))))))"
proof -
  have line1: "st_text (weight_line (u ''green'') (u ''love'') (u ''0.420'')) =
               Inr (u ''- <span style='color:green'>love</span> '' @ [0x2192] @ u '' 0.420'')"
    by (simp add: st_text_def encodable_def is_surrogate_def weight_line_def u_def)
  have line2: "st_text (weight_line (u ''red'') (u ''bad'') (u ''-0.310'')) =
               Inr (u ''- <span style='color:red'>bad</span> '' @ [0x2192] @ u '' -0.310'')"
    by (simp add: st_text_def encodable_def is_surrogate_def weight_line_def u_def)
  have item1: "explain_items L (JDict [(u ''word'', JStr (u ''love'')),
                   (u ''weight'', JFloat (decimal 42 (-2)))] # items) s' =
               explain_items L items
                 (emit In_expander
                   (Markdown (u ''- <span style='color:green'>love</span> '' @ [0x2192] @
                              u '' 0.420'') True) s')"
    for items s'
    using explanation_keys_differ
    by (simp add: try_eval_def subscript_def gt_0_def sign_of_weights format_fixed_def
        to_float_def format_weights [unfolded numeral_3_eq_3] format_weights py_str_def Let_def
        line1 del: append.simps)
  have item2: "explain_items L (JDict [(u ''word'', JStr (u ''bad'')),
                   (u ''weight'', JFloat (decimal (-31) (-2)))] # items) s' =
               explain_items L items
                 (emit In_expander
                   (Markdown (u ''- <span style='color:red'>bad</span> '' @ [0x2192] @
                              u '' -0.310'') True) s')"
    for items s'
    using explanation_keys_differ
    by (simp add: try_eval_def subscript_def gt_0_def sign_of_weights format_fixed_def
        to_float_def format_weights [unfolded numeral_3_eq_3] format_weights py_str_def Let_def
        line2 del: append.simps)
  show ?thesis
    using assms
    by (simp add: explain_action_def explain_try_def except_Exception_def try_eval_def Let_def
        explain_request_def response_json_def subscript_def py_iter_def st_html_def st_text_def
        item1 item2
        del: explain_items.simps(2) append.simps)
qed

theorem explanation_example_witness:
  "explain_action sample_lib (answering explanation_response) (u ''http://api'') (u ''hm'')
     (fresh Map.empty) =
   Inr (emit In_expander
         (Markdown (u ''- <span style='color:red'>bad</span> '' @ [0x2192] @ u '' -0.310'') True)
         (emit In_expander
           (Markdown (u ''- <span style='color:green'>love</span> '' @ [0x2192] @ u '' 0.420'')
              True)
           (emit Main_area (Expander ([0x1F4CA] @ u '' D'' @ [0xE9] @
                                      u ''tails des poids des mots''))
             (emit Main_area (Html (u ''<p>LIME</p>'') 400 True)
               (emit Main_area (Subheader ([0x1F4D8] @ u '' Explication LIME''))
                 (issue \<lparr>http_method = POST, url = u ''http://api'' @ u ''/explain'',
                          json_arg = Some (JDict [(u ''text'', JStr (u ''hm''))])\<rparr>
                   (fresh Map.empty)))))))"
proof -
  have h1: "answering explanation_response rq = Responds explanation_response" for rq
    by (simp add: answering_def)
  have h2: "status_code explanation_response = 200"
    by (simp add: explanation_response_def)
  have h3: "json_body explanation_response = Some (JDict explanation_items)"
    by (simp add: explanation_response_def)
  have h4: "map_of explanation_items (u ''html_explanation'') = Some (JStr (u ''<p>LIME</p>''))"
    by (simp add: explanation_items_def)
  have h5: "encodable (u ''<p>LIME</p>'')"
    by (simp add: encodable_def is_surrogate_def u_def)
  have h6: "map_of explanation_items (u ''explanation'') = Some (JList
           [JDict [(u ''word'', JStr (u ''love'')), (u ''weight'', JFloat (decimal 42 (-2)))],
            JDict [(u ''word'', JStr (u ''bad'')), (u ''weight'', JFloat (decimal (-31) (-2)))]])"
    using explanation_keys_differ by (simp add: explanation_items_def)
  show ?thesis
    by (rule explanation_example
        [where net = "answering explanation_response", OF refl h1 h2 h3 h4 h5 h6])
qed

text \<open>
  The two ways in which drawing the explanation raises. When \<open>html_explanation\<close> is
  not a string, the page has the subheader and the \<open>Erreur\<close> message only. When a word
  holds a surrogate, the lines before it are drawn and the \<open>Erreur\<close> message follows.
\<close>

lemma html_explanation_not_a_string:
  "rendered (final (explain_action sample_lib
       (answering \<lparr>status_code = 200,
                   json_body = Some (JDict [(u ''html_explanation'', JInt 123),
                                            (u ''explanation'', JList [])])\<rparr>)
       (u ''http://api'') (u ''hm'') (fresh Map.empty))) =
     [(Main_area, Subheader ([0x1F4D8] @ u '' Explication LIME'')),
      (Main_area, Error (u ''Erreur : failure''))]"
  by (simp add: explain_action_def explain_try_def except_Exception_def try_eval_def Let_def
      answering_def response_json_def subscript_def st_html_def erreur_def sample_lib_def
      emit_def issue_def fresh_def final_def)
    (simp add: u_def)

lemma surrogate_in_a_word:
  "rendered (final (explain_action sample_lib
       (answering \<lparr>status_code = 200,
                   json_body = Some (JDict
                     [(u ''html_explanation'', JStr (u ''<p>LIME</p>'')),
                      (u ''explanation'', JList
                         [JDict [(u ''word'', JStr (u ''love'')),
                                 (u ''weight'', JFloat (decimal 42 (-2)))],
                          JDict [(u ''word'', JStr [0xD800]),
                                 (u ''weight'', JFloat (decimal (-31) (-2)))]])])\<rparr>)
       (u ''http://api'') (u ''hm'') (fresh Map.empty))) =
     [(Main_area, Subheader ([0x1F4D8] @ u '' Explication LIME'')),
      (Main_area, Html (u ''<p>LIME</p>'') 400 True),
      (Main_area, Expander ([0x1F4CA] @ u '' D'' @ [0xE9] @ u ''tails des poids des mots'')),
      (In_expander,
       Markdown (u ''- <span style='color:green'>love</span> '' @ [0x2192] @ u '' 0.420'') True),
      (Main_area, Error (u ''Erreur : failure''))]"
proof -
  have html: "st_html (JStr (u ''<p>LIME</p>'')) = Inr (u ''<p>LIME</p>'')"
    by (simp add: st_html_def st_text_def encodable_def is_surrogate_def u_def)
  have line1: "st_text (weight_line (u ''green'') (u ''love'') (u ''0.420'')) =
               Inr (u ''- <span style='color:green'>love</span> '' @ [0x2192] @ u '' 0.420'')"
    by (simp add: st_text_def encodable_def is_surrogate_def weight_line_def u_def)
  have line2: "st_text (weight_line (u ''red'') [0xD800] (u ''-0.310'')) = Inl UnicodeEncodeError"
    by (simp add: st_text_def encodable_def is_surrogate_def weight_line_def)
  show ?thesis
    using explanation_keys_differ
    by (simp add: explain_action_def explain_try_def except_Exception_def try_eval_def Let_def
        answering_def response_json_def subscript_def py_iter_def html gt_0_def sign_of_weights
        format_fixed_def to_float_def format_weights [unfolded numeral_3_eq_3] format_weights
        py_str_def line1 line2 erreur_def sample_lib_def emit_def issue_def fresh_def final_def
        del: append.simps)
      (simp add: u_def)
qed

subsection \<open>Calls and buttons through the script\<close>

lemma ends_Inr [simp]: "ends Q (Inr s) = Q None s"
  by (simp add: ends_def)

lemma ends_Inl [simp]: "ends Q (Inl (e, s)) = Q (Some e) s"
  by (simp add: ends_def)

lemma ends_try_eval:
  assumes "\<And>e. r = Inl e \<Longrightarrow> Q (Some e) s" and "\<And>v. r = Inr v \<Longrightarrow> ends Q (k v)"
  shows "ends Q (try_eval s r k)"
  using assms by (cases r) (simp_all add: try_eval_def)

lemma emit_simps [simp]:
  "calls (emit p e s) = calls s"
  "session_state (emit p e s) = session_state s"
  "buttons_of (emit p e s) = buttons_of s @ (if is_button e then [(p, e)] else [])"
  "main_markdowns (emit p e s) =
     main_markdowns s @ (if p = Main_area \<and> is_markdown e then [e] else [])"
  by (simp_all add: emit_def buttons_of_def main_markdowns_def)

lemma issue_simps [simp]:
  "calls (issue rq s) = calls s @ [rq]"
  "buttons_of (issue rq s) = buttons_of s"
  "main_markdowns (issue rq s) = main_markdowns s"
  by (simp_all add: issue_def buttons_of_def main_markdowns_def)

lemma session_update_simps [simp]:
  "calls (s\<lparr>session_state := m\<rparr>) = calls s"
  "buttons_of (s\<lparr>session_state := m\<rparr>) = buttons_of s"
  "main_markdowns (s\<lparr>session_state := m\<rparr>) = main_markdowns s"
  by (simp_all add: buttons_of_def main_markdowns_def)

lemma fresh_simps [simp]:
  "calls (fresh m) = []" "buttons_of (fresh m) = []" "main_markdowns (fresh m) = []"
  by (simp_all add: fresh_def buttons_of_def main_markdowns_def)

lemma raised_by_operations:
  "subscript v k = Inl e \<Longrightarrow> is_Exception e"
  "response_json r = Inl e \<Longrightarrow> is_Exception e"
  "py_lower v = Inl e \<Longrightarrow> is_Exception e"
  "to_float v = Inl e \<Longrightarrow> is_Exception e"
  "gt_0 v = Inl e \<Longrightarrow> is_Exception e"
  "py_iter v = Inl e \<Longrightarrow> is_Exception e"
  "st_text w = Inl e \<Longrightarrow> is_Exception e"
  "st_html v = Inl e \<Longrightarrow> is_Exception e"
  by (auto simp: subscript_def response_json_def py_lower_def to_float_def gt_0_def py_iter_def
      st_text_def st_html_def split: json.splits option.splits if_splits)

lemma raised_by_format:
  "format_percent p v = Inl e \<Longrightarrow> is_Exception e"
  "format_fixed p v = Inl e \<Longrightarrow> is_Exception e"
  by (auto simp: format_percent_def format_fixed_def split: sum.splits
      dest: raised_by_operations(4))

lemma health_try_frame: "ends (try_frame net (health_request api) s) (health_try net api s)"
  by (simp add: health_try_def Let_def try_frame_def split: http_result.splits)

lemma predict_try_frame:
  "ends (try_frame net (predict_request api t) s) (predict_try net api t s)"
proof (cases "net (predict_request api t)")
  case (Raises e)
  then show ?thesis by (simp add: predict_try_def Let_def try_frame_def)
next
  case (Responds r)
  show ?thesis
  proof (cases "status_code r = 200")
    case False
    with Responds show ?thesis by (simp add: predict_try_def Let_def try_frame_def)
  next
    case True
    have "ends (try_frame net (predict_request api t) s)
       (try_eval (issue (predict_request api t) s) (response_json r) (\<lambda>data.
        try_eval (issue (predict_request api t) s) (subscript data (u ''sentiment'')) (\<lambda>sentiment.
        try_eval (issue (predict_request api t) s) (subscript data (u ''confidence'')) (\<lambda>confidence.
        try_eval (issue (predict_request api t) s) (subscript data (u ''probability_positive'')) (\<lambda>prob_pos.
        try_eval (issue (predict_request api t) s) (subscript data (u ''probability_negative'')) (\<lambda>prob_neg.
        try_eval (issue (predict_request api t) s) (py_lower sentiment) (\<lambda>lowered.
        try_eval (issue (predict_request api t) s) (format_percent 1 confidence) (\<lambda>pct.
          let s2 = (if startswith lowered (u ''pos'')
                    then emit Main_area (positive_badge pct) (issue (predict_request api t) s)
                    else emit Main_area (negative_badge pct) (issue (predict_request api t) s))
          in Inr (emit Main_area (PlotlyChart (px_bar prob_neg prob_pos)) s2)))))))))"
      by (intro ends_try_eval)
        (simp_all add: try_frame_def raised_by_operations raised_by_format Let_def
          positive_badge_def negative_badge_def)
    with Responds True show ?thesis by (simp add: predict_try_def Let_def)
  qed
qed

lemma explain_items_frame:
  assumes "calls s = cs" and "buttons_of s = bs" and "main_markdowns s = ms"
  shows "ends (\<lambda>eo s'. (\<forall>e. eo = Some e \<longrightarrow> is_Exception e) \<and> calls s' = cs \<and>
                       buttons_of s' = bs \<and> main_markdowns s' = ms)
           (explain_items L items s)"
  using assms
proof (induction items arbitrary: s)
  case Nil
  then show ?case by simp
next
  case (Cons item items)
  show ?case
    unfolding explain_items.simps Let_def
    by (intro ends_try_eval Cons.IH)
      (simp_all add: Cons.prems raised_by_operations raised_by_format)
qed

lemma explain_try_frame:
  "ends (try_frame net (explain_request api t) s) (explain_try L net api t s)"
proof (cases "net (explain_request api t)")
  case (Raises e)
  then show ?thesis by (simp add: explain_try_def Let_def try_frame_def)
next
  case (Responds r)
  show ?thesis
  proof (cases "status_code r = 200")
    case False
    with Responds show ?thesis by (simp add: explain_try_def Let_def try_frame_def)
  next
    case True
    have items: "ends (try_frame net (explain_request api t) s) (explain_items L items s')"
      if "calls s' = calls s @ [explain_request api t]" and "buttons_of s' = buttons_of s"
        and "main_markdowns s' = main_markdowns s"
      for items s'
      using explain_items_frame [OF that, where L = L and items = items]
      by (auto simp: ends_def try_frame_def split: sum.splits)
    show ?thesis
      using Responds True
      unfolding explain_try_def Let_def
      apply simp
      apply (intro ends_try_eval items)
      apply (simp_all add: try_frame_def raised_by_operations)
      done
  qed
qed


lemma except_frame:
  assumes "ends (try_frame net rq s) body"
    and "\<And>e s'. calls (handler e s') = calls s' \<and> buttons_of (handler e s') = buttons_of s' \<and>
           main_markdowns (handler e s') = main_markdowns s'"
  shows "outcome_frame net rq s (except_Exception body handler)"
  using assms
  by (auto simp: outcome_frame_def except_Exception_def ends_def try_frame_def final_def
      split: sum.splits)

lemma health_probe_frame: "outcome_frame net (health_request api) s (health_probe net api s)"
  unfolding health_probe_def by (rule except_frame [OF health_try_frame]) simp

lemma predict_action_frame:
  "outcome_frame net (predict_request api t) s (predict_action L net api t s)"
  unfolding predict_action_def by (rule except_frame [OF predict_try_frame]) (simp add: erreur_def)

lemma explain_action_frame:
  "outcome_frame net (explain_request api t) s (explain_action L net api t s)"
  unfolding explain_action_def by (rule except_frame [OF explain_try_frame]) (simp add: erreur_def)

lemma before_health [simp]:
  "calls (example_picker ex (startup api (fresh m))) = []"
  "buttons_of (example_picker ex (startup api (fresh m))) = []"
  "main_markdowns (example_picker ex (startup api (fresh m))) = []"
  by (simp_all add: example_picker_def startup_def Let_def)

lemma input_zone_simps [simp]:
  "calls (input_zone t s) = calls s"
  "buttons_of (input_zone t s) = buttons_of s"
  "main_markdowns (input_zone t s) = main_markdowns s @ [char_counter (length t)]"
  by (simp_all add: input_zone_def Let_def char_counter_def)

lemma action_buttons_simps [simp]:
  "calls (action_buttons v s) = calls s"
  "buttons_of (action_buttons v s) = buttons_of s @
     [(Column 1, Button predict_label (\<not> v) True), (Column 2, Button explain_label (\<not> v) False),
      (Column 3, Button clear_label False False)]"
  "main_markdowns (action_buttons v s) = main_markdowns s"
  by (simp_all add: action_buttons_def)

lemma final_simps [simp]: "final (Inr s) = s" "final (Inl (h, s)) = s"
  by (simp_all add: final_def)

lemma then_run_buttons:
  assumes "\<And>s. buttons_of (final (k s)) = buttons_of s"
  shows "buttons_of (final (then_run r k)) = buttons_of (final r)"
  using assms by (cases r) (auto simp: then_run_def final_def)

text \<open>
  C2. The Predict and Explain buttons are drawn enabled exactly when the text has
  \<open>0 < L \<le> 280\<close> characters (whenever the run gets past the health probe), and with an
  empty or too long text the run issues no call but the health probe: no \<open>/predict\<close>
  and no \<open>/explain\<close> request, whatever the buttons return.
\<close>

theorem buttons_gated:
  assumes "len = length (text_area_value inp)" and "api = API_URL (env_API_URL inp)"
  shows "((\<forall>e. network inp (health_request api) = Raises e \<longrightarrow> is_Exception e) \<longrightarrow>
            buttons_of (final (script L inp)) =
              [(Column 1, Button predict_label (\<not> (0 < len \<and> len \<le> 280)) True),
               (Column 2, Button explain_label (\<not> (0 < len \<and> len \<le> 280)) False),
               (Column 3, Button clear_label False False)]) \<and>
         (\<not> (0 < len \<and> len \<le> 280) \<longrightarrow> calls (final (script L inp)) = [health_request api])"
proof -
  let ?api = "API_URL (env_API_URL inp)" and ?t = "text_area_value inp"
  let ?v = "text_valid (length ?t)"
  let ?s2 = "example_picker (selectbox_value inp) (startup ?api (fresh (initial_session inp)))"
  have H: "outcome_frame (network inp) (health_request ?api) ?s2
             (health_probe (network inp) ?api ?s2)"
    by (rule health_probe_frame)
  have "((\<forall>e. network inp (health_request ?api) = Raises e \<longrightarrow> is_Exception e) \<longrightarrow>
            buttons_of (final (script L inp)) =
              [(Column 1, Button predict_label (\<not> ?v) True),
               (Column 2, Button explain_label (\<not> ?v) False),
               (Column 3, Button clear_label False False)]) \<and>
         (\<not> ?v \<longrightarrow> calls (final (script L inp)) = [health_request ?api])"
  proof (cases "health_probe (network inp) ?api ?s2")
    case (Inl a)
    then have scr: "script L inp = Inl a"
      by (simp add: script_def Let_def then_run_def)
    obtain h s' where a: "a = (h, s')" by (cases a)
    from H Inl a obtain e where "network inp (health_request ?api) = Raises e" "\<not> is_Exception e"
      and "calls s' = [health_request ?api]"
      by (auto simp: outcome_frame_def final_def)
    then show ?thesis
      by (auto simp: scr a final_def)
  next
    case (Inr s3)
    from H Inr have s3: "calls s3 = [health_request ?api]" "buttons_of s3 = []"
      by (auto simp: outcome_frame_def final_def)
    define s5 where "s5 = action_buttons ?v (input_zone ?t s3)"
    have s5: "calls s5 = [health_request ?api]"
      "buttons_of s5 = [(Column 1, Button predict_label (\<not> ?v) True),
         (Column 2, Button explain_label (\<not> ?v) False), (Column 3, Button clear_label False False)]"
      by (simp_all add: s3 s5_def)
    have scr: "script L inp =
      (if clear_btn inp then clear_action s5
       else then_run (if predict_btn inp \<and> ?v then predict_action L (network inp) ?api ?t s5
                      else Inr s5)
              (\<lambda>s6. if explain_btn inp \<and> ?v then explain_action L (network inp) ?api ?t s6
                    else Inr s6))"
      using Inr by (simp add: script_def Let_def then_run_def s5_def)
    have P: "buttons_of (final (if predict_btn inp \<and> ?v
                then predict_action L (network inp) ?api ?t s5 else Inr s5)) = buttons_of s5"
      using predict_action_frame [of "network inp" ?api ?t s5 L]
      by (simp add: outcome_frame_def)
    have E: "buttons_of (final (if explain_btn inp \<and> ?v
                then explain_action L (network inp) ?api ?t s6 else Inr s6)) = buttons_of s6"
      for s6
      using explain_action_frame [of "network inp" ?api ?t s6 L]
      by (simp add: outcome_frame_def)
    have b: "buttons_of (final (script L inp)) = buttons_of s5"
    proof (cases "clear_btn inp")
      case True
      then show ?thesis by (simp add: scr clear_action_def)
    next
      case False
      then have "buttons_of (final (script L inp)) =
          buttons_of (final (if predict_btn inp \<and> ?v
             then predict_action L (network inp) ?api ?t s5 else Inr s5))"
        by (simp only: scr if_False then_run_buttons [OF E])
      with P show ?thesis by simp
    qed
    have c: "\<not> ?v \<Longrightarrow> calls (final (script L inp)) = calls s5"
      by (simp add: scr clear_action_def then_run_def)
    from b c show ?thesis
      by (simp add: s5)
  qed
  then show ?thesis
    by (simp add: assms text_valid_def)
qed

theorem buttons_gated_witness:
  "buttons_of (final (script sample_lib (sample_inputs []))) =
     [(Column 1, Button predict_label True True), (Column 2, Button explain_label True False),
      (Column 3, Button clear_label False False)] \<and>
   calls (final (script sample_lib (sample_inputs []))) =
     [health_request (u ''http://127.0.0.1:8000'')] \<and>
   buttons_of (final (script sample_lib (sample_inputs (u ''hello'')))) =
     [(Column 1, Button predict_label False True), (Column 2, Button explain_label False False),
      (Column 3, Button clear_label False False)]"
proof -
  have h: "\<forall>e. network (sample_inputs w) (health_request (u ''http://127.0.0.1:8000'')) = Raises e
             \<longrightarrow> is_Exception e" for w
    by (simp add: sample_inputs_def failing_def)
  have a: "API_URL (env_API_URL (sample_inputs w)) = u ''http://127.0.0.1:8000''" for w
    by (simp add: sample_inputs_def API_URL_def)
  have l0: "0 = length (text_area_value (sample_inputs []))"
    by (simp add: sample_inputs_def)
  have l5: "5 = length (text_area_value (sample_inputs (u ''hello'')))"
    by (simp add: sample_inputs_def u_def)
  show ?thesis
    using buttons_gated [OF l0 a [symmetric], of sample_lib]
      buttons_gated [OF l5 a [symmetric], of sample_lib] h
    by simp
qed

subsection \<open>The counter on the page\<close>

lemma span_prefixes_differ:
  "(u ''<span style='color:green'>'' = u ''<span style='color:orange'>'') = False"
  "(u ''<span style='color:green'>'' = u ''<span style='color:red'>'') = False"
  "(u ''<span style='color:orange'>'' = u ''<span style='color:green'>'') = False"
  "(u ''<span style='color:orange'>'' = u ''<span style='color:red'>'') = False"
  "(u ''<span style='color:red'>'' = u ''<span style='color:green'>'') = False"
  "(u ''<span style='color:red'>'' = u ''<span style='color:orange'>'') = False"
  by (simp_all add: u_def)

lemma main_markdowns_member:
  "(Main_area, Markdown txt h) \<in> set (rendered s) \<longleftrightarrow> Markdown txt h \<in> set (main_markdowns s)"
  by (force simp: main_markdowns_def)

lemma then_run_markdowns:
  assumes "\<And>s. main_markdowns (final (k s)) = main_markdowns s"
  shows "main_markdowns (final (then_run r k)) = main_markdowns (final r)"
  using assms by (cases r) (auto simp: then_run_def final_def)

lemma script_main_markdowns:
  assumes "\<forall>e. network inp (health_request (API_URL (env_API_URL inp))) = Raises e
             \<longrightarrow> is_Exception e"
  shows "main_markdowns (final (script L inp)) = [char_counter (length (text_area_value inp))]"
proof -
  let ?api = "API_URL (env_API_URL inp)" and ?t = "text_area_value inp"
  let ?v = "text_valid (length ?t)"
  let ?s2 = "example_picker (selectbox_value inp) (startup ?api (fresh (initial_session inp)))"
  have H: "outcome_frame (network inp) (health_request ?api) ?s2
             (health_probe (network inp) ?api ?s2)"
    by (rule health_probe_frame)
  show ?thesis
  proof (cases "health_probe (network inp) ?api ?s2")
    case (Inl a)
    obtain h s' where "a = (h, s')" by (cases a)
    with H Inl assms show ?thesis
      by (auto simp: outcome_frame_def)
  next
    case (Inr s3)
    from H Inr have s3: "main_markdowns s3 = []"
      by (auto simp: outcome_frame_def)
    define s5 where "s5 = action_buttons ?v (input_zone ?t s3)"
    have s5: "main_markdowns s5 = [char_counter (length ?t)]"
      by (simp add: s3 s5_def)
    have scr: "script L inp =
      (if clear_btn inp then clear_action s5
       else then_run (if predict_btn inp \<and> ?v then predict_action L (network inp) ?api ?t s5
                      else Inr s5)
              (\<lambda>s6. if explain_btn inp \<and> ?v then explain_action L (network inp) ?api ?t s6
                    else Inr s6))"
      using Inr by (simp add: script_def Let_def then_run_def s5_def)
    have P: "main_markdowns (final (if predict_btn inp \<and> ?v
                then predict_action L (network inp) ?api ?t s5 else Inr s5)) = main_markdowns s5"
      using predict_action_frame [of "network inp" ?api ?t s5 L]
      by (simp add: outcome_frame_def)
    have E: "main_markdowns (final (if explain_btn inp \<and> ?v
                then explain_action L (network inp) ?api ?t s6 else Inr s6)) = main_markdowns s6"
      for s6
      using explain_action_frame [of "network inp" ?api ?t s6 L]
      by (simp add: outcome_frame_def)
    have "main_markdowns (final (script L inp)) = main_markdowns s5"
    proof (cases "clear_btn inp")
      case True
      then show ?thesis by (simp add: scr clear_action_def)
    next
      case False
      then have "main_markdowns (final (script L inp)) =
          main_markdowns (final (if predict_btn inp \<and> ?v
             then predict_action L (network inp) ?api ?t s5 else Inr s5))"
        by (simp only: scr if_False then_run_markdowns [OF E])
      with P show ?thesis by simp
    qed
    then show ?thesis by (simp add: s5)
  qed
qed

text \<open>
  C3. For a text of length \<open>L\<close>, on the page that a run of the script draws (a run that
  gets past the health probe), the character counter \<open>L/280\<close> is there in green exactly
  when \<open>L < 240\<close>, and in orange exactly when \<open>240 \<le> L \<le> 280\<close>.
\<close>

theorem counter_colour_on_page:
  assumes "L = length (text_area_value inp)"
    and "\<forall>e. network inp (health_request (API_URL (env_API_URL inp))) = Raises e
           \<longrightarrow> is_Exception e"
  shows "((Main_area,
           Markdown (u ''<span style='color:green'>'' @ str_int (int L) @ u ''/280</span>'') True)
            \<in> set (rendered (final (script lib inp))) \<longleftrightarrow> L < 240) \<and>
         ((Main_area,
           Markdown (u ''<span style='color:orange'>'' @ str_int (int L) @ u ''/280</span>'') True)
            \<in> set (rendered (final (script lib inp))) \<longleftrightarrow> 240 \<le> L \<and> L \<le> 280)"
  by (simp add: main_markdowns_member script_main_markdowns [OF assms(2)] assms(1) [symmetric]
      char_counter_def span_colours_differ span_prefixes_differ)

theorem counter_colour_on_page_witness:
  "(Main_area, Markdown (u ''<span style='color:green'>5/280</span>'') True)
     \<in> set (rendered (final (script sample_lib (sample_inputs (u ''hello''))))) \<and>
   (Main_area, Markdown (u ''<span style='color:orange'>240/280</span>'') True)
     \<in> set (rendered (final (script sample_lib (sample_inputs (replicate 240 97))))) \<and>
   (Main_area, Markdown (u ''<span style='color:orange'>281/280</span>'') True)
     \<notin> set (rendered (final (script sample_lib (sample_inputs (replicate 281 97)))))"
proof -
  have h: "\<forall>e. network (sample_inputs w)
                 (health_request (API_URL (env_API_URL (sample_inputs w)))) = Raises e
             \<longrightarrow> is_Exception e" for w
    by (simp add: sample_inputs_def failing_def)
  have l5: "5 = length (text_area_value (sample_inputs (u ''hello'')))"
    by (simp add: sample_inputs_def u_def)
  have l240: "240 = length (text_area_value (sample_inputs (replicate 240 97)))"
    by (simp add: sample_inputs_def)
  have l281: "281 = length (text_area_value (sample_inputs (replicate 281 97)))"
    by (simp add: sample_inputs_def)
  have t5: "u ''<span style='color:green'>'' @ str_int (int 5) @ u ''/280</span>'' =
            u ''<span style='color:green'>5/280</span>''"
    by (simp add: str_int_def digits.simps u_def)
  have t240: "u ''<span style='color:orange'>'' @ str_int (int 240) @ u ''/280</span>'' =
              u ''<span style='color:orange'>240/280</span>''"
    by (simp add: str_int_def digits.simps u_def)
  have t281: "u ''<span style='color:orange'>'' @ str_int (int 281) @ u ''/280</span>'' =
              u ''<span style='color:orange'>281/280</span>''"
    by (simp add: str_int_def digits.simps u_def)
  show ?thesis
    using counter_colour_on_page [OF l5 h, of sample_lib]
      counter_colour_on_page [OF l240 h, of sample_lib]
      counter_colour_on_page [OF l281 h, of sample_lib]
    by (simp only: t5 t240 t281) simp
qed

subsection \<open>Network failures\<close>

text \<open>
  C8. For each of the three calls (health, predict, explain), an exception of the
  transport or a response with a status other than 200 ends in an error message on the
  page, not in an exception that leaves the section; and when every exception of the
  network is of class \<open>Exception\<close>, no run of the script is stopped by an exception.
\<close>

theorem network_failures_not_fatal:
  "(failed (net (health_request api)) \<longrightarrow>
      health_probe net api s =
        Inr (emit Main_area
              (Error (case net (health_request api) of
                        Raises e \<Rightarrow> api_connection_error | Responds r \<Rightarrow> api_unreachable))
              (issue (health_request api) s))) \<and>
   (failed (net (predict_request api t)) \<longrightarrow>
      predict_action L net api t s =
        Inr (emit Main_area
              (Error (case net (predict_request api t) of
                        Raises e \<Rightarrow> u ''Erreur : '' @ str_exc L e | Responds r \<Rightarrow> predict_failed))
              (issue (predict_request api t) s))) \<and>
   (failed (net (explain_request api t)) \<longrightarrow>
      explain_action L net api t s =
        Inr (emit Main_area
              (Error (case net (explain_request api t) of
                        Raises e \<Rightarrow> u ''Erreur : '' @ str_exc L e | Responds r \<Rightarrow> explain_failed))
              (issue (explain_request api t) s))) \<and>
   ((\<forall>rq e. network inp rq = Raises e \<longrightarrow> is_Exception e) \<longrightarrow>
      (\<nexists>e s'. script L inp = Inl (Uncaught e, s')))"
proof -
  have hp: "failed (net (health_request api)) \<longrightarrow>
      health_probe net api s =
        Inr (emit Main_area
              (Error (case net (health_request api) of
                        Raises e \<Rightarrow> api_connection_error | Responds r \<Rightarrow> api_unreachable))
              (issue (health_request api) s))"
    by (simp add: failed_def health_probe_def health_try_def except_Exception_def Let_def
        split: http_result.splits)
  have pa: "failed (net (predict_request api t)) \<longrightarrow>
      predict_action L net api t s =
        Inr (emit Main_area
              (Error (case net (predict_request api t) of
                        Raises e \<Rightarrow> u ''Erreur : '' @ str_exc L e | Responds r \<Rightarrow> predict_failed))
              (issue (predict_request api t) s))"
    by (simp add: failed_def predict_action_def predict_try_def except_Exception_def Let_def
        erreur_def split: http_result.splits)
  have ea: "failed (net (explain_request api t)) \<longrightarrow>
      explain_action L net api t s =
        Inr (emit Main_area
              (Error (case net (explain_request api t) of
                        Raises e \<Rightarrow> u ''Erreur : '' @ str_exc L e | Responds r \<Rightarrow> explain_failed))
              (issue (explain_request api t) s))"
    by (simp add: failed_def explain_action_def explain_try_def except_Exception_def Let_def
        erreur_def split: http_result.splits)
  have sc: "(\<forall>rq e. network inp rq = Raises e \<longrightarrow> is_Exception e) \<longrightarrow>
      (\<nexists>e s'. script L inp = Inl (Uncaught e, s'))"
  proof
    assume caught: "\<forall>rq e. network inp rq = Raises e \<longrightarrow> is_Exception e"
    have H: "outcome_frame (network inp) (health_request a) z (health_probe (network inp) a z)"
      for a z
      by (rule health_probe_frame)
    have P: "outcome_frame (network inp) (predict_request a w) z
               (predict_action L (network inp) a w z)" for a w z
      by (rule predict_action_frame)
    have E: "outcome_frame (network inp) (explain_request a w) z
               (explain_action L (network inp) a w z)" for a w z
      by (rule explain_action_frame)
    have no: "r \<noteq> Inl (Uncaught e, s')" if "outcome_frame (network inp) rq z r" for rq z r e s'
      using that caught by (auto simp: outcome_frame_def)
    show "\<nexists>e s'. script L inp = Inl (Uncaught e, s')"
      using no [OF H] no [OF P] no [OF E]
      by (auto simp: script_def Let_def then_run_def clear_action_def
          split: sum.splits if_splits)
  qed
  from hp pa ea sc show ?thesis by blast
qed

theorem network_failures_not_fatal_witness:
  "health_probe (failing (RequestException (u ''refused''))) (u ''http://api'') (fresh Map.empty) =
     Inr (emit Main_area (Error api_connection_error)
           (issue (health_request (u ''http://api'')) (fresh Map.empty))) \<and>
   predict_action sample_lib (answering \<lparr>status_code = 500, json_body = None\<rparr>) (u ''http://api'')
       (u ''hello'') (fresh Map.empty) =
     Inr (emit Main_area (Error predict_failed)
           (issue (predict_request (u ''http://api'') (u ''hello'')) (fresh Map.empty))) \<and>
   explain_action sample_lib (failing (RequestException (u ''refused''))) (u ''http://api'')
       (u ''hello'') (fresh Map.empty) =
     Inr (emit Main_area (Error (u ''Erreur : '' @ u ''failure''))
           (issue (explain_request (u ''http://api'') (u ''hello'')) (fresh Map.empty))) \<and>
   (\<nexists>e s'. script sample_lib (sample_inputs (u ''hello'')) = Inl (Uncaught e, s'))"
proof -
  have f1: "failed (failing (RequestException (u ''refused'')) rq)" for rq
    by (simp add: failed_def failing_def)
  have f2: "failed (answering \<lparr>status_code = 500, json_body = None\<rparr> rq)" for rq
    by (simp add: failed_def answering_def)
  have f3: "\<forall>rq e. network (sample_inputs (u ''hello'')) rq = Raises e \<longrightarrow> is_Exception e"
    by (simp add: sample_inputs_def failing_def)
  have v1: "failing (RequestException (u ''refused'')) rq = Raises (RequestException (u ''refused''))"
    for rq
    by (simp add: failing_def)
  have v2: "answering \<lparr>status_code = 500, json_body = None\<rparr> rq =
            Responds \<lparr>status_code = 500, json_body = None\<rparr>" for rq
    by (simp add: answering_def)
  have v3: "str_exc sample_lib e = u ''failure''" for e
    by (simp add: sample_lib_def)
  show ?thesis
    using network_failures_not_fatal
        [where net = "failing (RequestException (u ''refused''))" and api = "u ''http://api''"
           and s = "fresh Map.empty" and t = "u ''hello''" and L = sample_lib
           and inp = "sample_inputs (u ''hello'')"]
      network_failures_not_fatal
        [where net = "answering \<lparr>status_code = 500, json_body = None\<rparr>"
           and api = "u ''http://api''" and s = "fresh Map.empty" and t = "u ''hello''"
           and L = sample_lib and inp = "sample_inputs (u ''hello'')"]
      f1 f2 f3
    by (simp add: v1 v2 v3 del: append.simps)
qed

end
